theory Spec2Isabelle
  imports Main "HOL-Library.Word"
begin

unbundle bit_operations_syntax

section \<open>OAuth 2.0 authorization code flow with PKCE (src/user.ts)\<close>

text \<open>
  A shallow embedding of \<^verbatim>\<open>src/user.ts\<close>. The module keeps one mutable object,
  \<^verbatim>\<open>LocalState\<close>; every function of the model takes it as an argument and returns
  the updated one. What a function throws is a value of type \<open>thrown\<close>; what it does to
  the outside world (console, network, configuration file) is a list of effects in
  the order in which they happen.

  JavaScript strings are modelled as \<open>string\<close>, taken as the UTF-8 bytes of a
  well-formed string. An optional field (\<^verbatim>\<open>x?: T\<close>) is an \<open>option\<close>, \<open>None\<close> being
  \<^verbatim>\<open>undefined\<close>.
\<close>

subsection \<open>Data model\<close>

text \<open>
  The string \<^verbatim>\<open>AccessToken.expiry\<close> is only ever produced by
  \<^verbatim>\<open>Date.prototype.toISOString\<close> (or read back from the configuration file) and only
  ever consumed by \<^verbatim>\<open>new Date(expiry)\<close>. It is represented by what the \<^verbatim>\<open>Date\<close>
  constructor makes of it: \<open>ISOString t\<close> is the text denoting the time value \<open>t\<close>
  (milliseconds since the epoch), \<open>NotADate\<close> any text (or \<^verbatim>\<open>undefined\<close>) that
  \<^verbatim>\<open>Date\<close> parses to an invalid date.
\<close>

datatype date_string = ISOString int | NotADate

record RefreshToken =
  rt_value :: string

text \<open>
  \<^verbatim>\<open>AccessToken.value\<close> is declared a string, but it is filled from the field
  \<^verbatim>\<open>access_token\<close> of a response without any check, so at run time it is
  \<^verbatim>\<open>undefined\<close> when the response has no such field.
\<close>

record AccessToken =
  at_value :: "string option"
  expiry :: date_string

record State =
  accessToken :: "AccessToken option"
  authorizationCode :: "string option"
  codeChallenge :: "string option"
  codeVerifier :: "string option"
  hasAuthCodeBeenExchangedForAccessToken :: "bool option"
  refreshToken :: "RefreshToken option"
  stateQueryParam :: "string option"
  scopes :: "string list option"

record AccessContext =
  ctx_token :: "AccessToken option"
  ctx_scopes :: "string list option"
  ctx_refreshToken :: "RefreshToken option"

record PKCECodes =
  pk_codeChallenge :: string
  pk_codeVerifier :: string

text \<open>
  The body of a token endpoint response after \<^verbatim>\<open>response.json()\<close>, with the type the
  source casts it to (\<^verbatim>\<open>access_token\<close>, \<^verbatim>\<open>expires_in\<close>, \<^verbatim>\<open>refresh_token\<close>, \<^verbatim>\<open>scope\<close>,
  and \<^verbatim>\<open>error\<close> in the failure branch); every field may be absent. \<^verbatim>\<open>expires_in\<close> is
  an integral number of seconds.
\<close>

record token_json =
  access_token :: "string option"
  expires_in :: "int option"
  refresh_token :: "string option"
  scope :: "string option"
  error_field :: "string option"

text \<open>The parsed query string of a callback request.\<close>

record query =
  q_error :: "string option"
  q_code :: "string option"
  q_state :: "string option"

subsection \<open>The error classes\<close>

datatype ErrorOAuth2 =
    ErrorUnknown
  | ErrorNoAuthCode
  | ErrorInvalidReturnedStateParam
  | ErrorInvalidJson
  | ErrorInvalidScope
  | ErrorInvalidRequest
  | ErrorInvalidToken
  | ErrorUnauthorizedClient
  | ErrorAccessDenied
  | ErrorUnsupportedResponseType
  | ErrorServerError
  | ErrorTemporarilyUnavailable
  | ErrorInvalidClient
  | ErrorInvalidGrant
  | ErrorUnsupportedGrantType

text \<open>
  Everything a function of the module can throw: an instance of one of the error
  classes; the parsed body itself (\<^verbatim>\<open>throw await response.json()\<close>); the rejection of
  \<^verbatim>\<open>fetch\<close>; the rejection of \<^verbatim>\<open>response.json()\<close> on a body that is not JSON; the
  \<^verbatim>\<open>RangeError\<close> of \<^verbatim>\<open>toISOString\<close> on an invalid date; a \<^verbatim>\<open>TypeError\<close>; and an empty
  plain object.
\<close>

datatype thrown =
    OAuth ErrorOAuth2
  | ThrownBody token_json
  | FetchRejected
  | JsonRejected
  | RangeError
  | TypeError
  | PlainObject

text \<open>JavaScript truthiness of an optional string: present and not empty.\<close>

definition truthy :: "string option \<Rightarrow> bool" where
  "truthy v = (case v of None \<Rightarrow> False | Some s \<Rightarrow> s \<noteq> [])"

text \<open>\<^verbatim>\<open>v || d\<close> for an optional string \<open>v\<close>.\<close>

definition or_else :: "string option \<Rightarrow> string \<Rightarrow> string" where
  "or_else v d = (case v of None \<Rightarrow> d | Some s \<Rightarrow> if s = [] then d else s)"

text \<open>The own properties of \<^verbatim>\<open>RawErrorToErrorClassMap\<close>, in the order of the source.\<close>

definition RawErrorToErrorClassMap :: "(string \<times> ErrorOAuth2) list" where
  "RawErrorToErrorClassMap =
    [(''invalid_request'', ErrorInvalidRequest),
     (''invalid_grant'', ErrorInvalidGrant),
     (''unauthorized_client'', ErrorUnauthorizedClient),
     (''access_denied'', ErrorAccessDenied),
     (''unsupported_response_type'', ErrorUnsupportedResponseType),
     (''invalid_scope'', ErrorInvalidScope),
     (''server_error'', ErrorServerError),
     (''temporarily_unavailable'', ErrorTemporarilyUnavailable),
     (''invalid_client'', ErrorInvalidClient),
     (''unsupported_grant_type'', ErrorUnsupportedGrantType),
     (''invalid_json'', ErrorInvalidJson),
     (''invalid_token'', ErrorInvalidToken)]"

text \<open>
  The map is an object literal, so a lookup that misses its own properties goes on to
  \<^verbatim>\<open>Object.prototype\<close>. There \<^verbatim>\<open>constructor\<close> is \<^verbatim>\<open>Object\<close> (and \<^verbatim>\<open>new Object()\<close> is an
  empty object), and every other property is truthy but not a constructor, so that
  \<^verbatim>\<open>new\<close> throws a \<^verbatim>\<open>TypeError\<close>.
\<close>

definition Object_prototype_keys :: "string list" where
  "Object_prototype_keys =
    [''__defineGetter__'', ''__defineSetter__'', ''hasOwnProperty'',
     ''__lookupGetter__'', ''__lookupSetter__'', ''isPrototypeOf'',
     ''propertyIsEnumerable'', ''toString'', ''valueOf'', ''__proto__'',
     ''toLocaleString'']"

text \<open>
  \<^verbatim>\<open>toErrorClass(rawError)\<close>: the value that \<^verbatim>\<open>throw toErrorClass(rawError)\<close> throws. An
  \<^verbatim>\<open>undefined\<close> argument is looked up as the key \<^verbatim>\<open>"undefined"\<close>.
\<close>

definition toErrorClass :: "string option \<Rightarrow> thrown" where
  "toErrorClass rawError =
    (let key = (case rawError of None \<Rightarrow> ''undefined'' | Some s \<Rightarrow> s) in
     case map_of RawErrorToErrorClassMap key of
       Some c \<Rightarrow> OAuth c
     | None \<Rightarrow>
        (if key = ''constructor'' then PlainObject
         else if key \<in> set Object_prototype_keys then TypeError
         else OAuth ErrorUnknown))"

subsection \<open>Effects\<close>

record request =
  req_url :: string
  req_method :: string
  req_body :: string
  req_content_type :: string

datatype effect =
    ConsoleWarn string
  | ConsoleLog string
  | ConsoleLogThrown thrown
  | ConsoleLogContext AccessContext
  | Fetch request
  | WriteConfigFile AccessContext

text \<open>
  What a call leaves behind: the value returned or thrown, \<^verbatim>\<open>LocalState\<close> afterwards,
  and the effects in order.
\<close>

record 'a outcome =
  result :: "thrown + 'a"
  state :: State
  effects :: "effect list"

definition fetches :: "effect list \<Rightarrow> request list" where
  "fetches es = concat (map (\<lambda>e. case e of Fetch r \<Rightarrow> [r] | _ \<Rightarrow> []) es)"

text \<open>\<^verbatim>\<open>const LocalState: State = {}\<close>, before the configuration file is read.\<close>

definition LocalState0 :: State where
  "LocalState0 =
    \<lparr>accessToken = None, authorizationCode = None, codeChallenge = None,
     codeVerifier = None, hasAuthCodeBeenExchangedForAccessToken = None,
     refreshToken = None, stateQueryParam = None, scopes = None\<rparr>"

subsection \<open>The callback check\<close>

definition isReturningFromAuthServer :: "State \<Rightarrow> query \<Rightarrow> bool outcome" where
  "isReturningFromAuthServer LocalState q =
    (if truthy (q_error q) then
       \<lparr>result = Inl (toErrorClass (q_error q)), state = LocalState, effects = []\<rparr>
     else if \<not> truthy (q_code q) then
       \<lparr>result = Inr False, state = LocalState, effects = []\<rparr>
     else if q_state q \<noteq> stateQueryParam LocalState then
       \<lparr>result = Inl (OAuth ErrorInvalidReturnedStateParam), state = LocalState,
        effects = [ConsoleWarn
          ''state query string parameter doesn't match the one sent! Possible malicious activity somewhere.'']\<rparr>
     else
       \<lparr>result = Inr True,
        state = LocalState\<lparr>authorizationCode := q_code q,
                          hasAuthCodeBeenExchangedForAccessToken := Some False\<rparr>,
        effects = []\<rparr>)"

subsection \<open>Library functions the module calls\<close>

text \<open>
  \<^verbatim>\<open>btoa\<close>: base64 with the standard alphabet and padding. Three bytes give four
  characters of six bits each, so every index into the alphabet is below 64.
\<close>

definition b64_alphabet :: string where
  "b64_alphabet = ''ABCDEFGHIJKLMNOPQRSTUVWXYZabcdefghijklmnopqrstuvwxyz0123456789+/''"

definition b64 :: "nat \<Rightarrow> char" where
  "b64 i = b64_alphabet ! i"

fun btoa :: "string \<Rightarrow> string" where
  "btoa (a # b # c # rest) =
    (let n = of_char a * 65536 + of_char b * 256 + of_char c in
     [b64 (n div 262144), b64 (n div 4096 mod 64), b64 (n div 64 mod 64), b64 (n mod 64)]
       @ btoa rest)"
| "btoa [a, b] =
    (let n = of_char a * 65536 + of_char b * 256 in
     [b64 (n div 262144), b64 (n div 4096 mod 64), b64 (n div 64 mod 64), CHR ''=''])"
| "btoa [a] =
    (let n = of_char a * 65536 in
     [b64 (n div 262144), b64 (n div 4096 mod 64), CHR ''='', CHR ''=''])"
| "btoa [] = []"

text \<open>\<^verbatim>\<open>s.replace(/c/g, r)\<close> for a single character \<open>c\<close>.\<close>

definition replace_all :: "char \<Rightarrow> string \<Rightarrow> string \<Rightarrow> string" where
  "replace_all c r s = concat (map (\<lambda>x. if x = c then r else [x]) s)"

text \<open>\<^verbatim>\<open>s.split(" ")\<close>: the pieces between the separators, empty ones included.\<close>

fun split_str :: "char \<Rightarrow> string \<Rightarrow> string list" where
  "split_str sep [] = [[]]"
| "split_str sep (c # cs) =
    (if c = sep then [] # split_str sep cs
     else (case split_str sep cs of
             w # ws \<Rightarrow> (c # w) # ws
           | [] \<Rightarrow> [[c]]))"

text \<open>\<^verbatim>\<open>xs.join(" ")\<close>.\<close>

fun join_str :: "string \<Rightarrow> string list \<Rightarrow> string" where
  "join_str sep [] = []"
| "join_str sep [x] = x"
| "join_str sep (x # y # ys) = x @ sep @ join_str sep (y # ys)"

text \<open>
  \<^verbatim>\<open>encodeURIComponent\<close>: every byte outside the unreserved marks becomes \<^verbatim>\<open>%XX\<close>.
\<close>

definition uri_unreserved :: string where
  "uri_unreserved =
    ''ABCDEFGHIJKLMNOPQRSTUVWXYZabcdefghijklmnopqrstuvwxyz0123456789-_.!~*'()''"

definition hex_digit :: "nat \<Rightarrow> char" where
  "hex_digit i = ''0123456789ABCDEF'' ! (i mod 16)"

definition encodeURIComponent :: "string \<Rightarrow> string" where
  "encodeURIComponent s =
    concat (map (\<lambda>c. if c \<in> set uri_unreserved then [c]
                      else [CHR ''%'', hex_digit (of_char c div 16), hex_digit (of_char c)]) s)"

text \<open>
  Dates. A time value is a number of milliseconds, \<open>None\<close> standing for \<^verbatim>\<open>NaN\<close>.
  \<^verbatim>\<open>new Date(v)\<close> clips to the range of valid time values; \<^verbatim>\<open>toISOString\<close> throws a
  \<^verbatim>\<open>RangeError\<close> on an invalid date; \<^verbatim>\<open>new Date(text)\<close> reads the text back.
\<close>

definition TimeClip :: "int option \<Rightarrow> int option" where
  "TimeClip v =
    (case v of None \<Rightarrow> None
     | Some t \<Rightarrow> if \<bar>t\<bar> \<le> 8640000000000000 then Some t else None)"

definition toISOString :: "int option \<Rightarrow> thrown + date_string" where
  "toISOString tv = (case tv of None \<Rightarrow> Inl RangeError | Some t \<Rightarrow> Inr (ISOString t))"

definition Date_of_string :: "date_string \<Rightarrow> int option" where
  "Date_of_string s = (case s of ISOString t \<Rightarrow> TimeClip (Some t) | NotADate \<Rightarrow> None)"

text \<open>
  \<^verbatim>\<open>crypto.subtle.digest("SHA-256", bytes)\<close>: SHA-256 as in FIPS 180-4, from the bytes
  hashed to the 32 bytes of the digest. Words are 32 bits wide and addition wraps. The
  round constants and the initial hash value are written in decimal.
\<close>

definition sha256_K :: "32 word list" where
  "sha256_K =
    [1116352408, 1899447441, 3049323471, 3921009573,
     961987163, 1508970993, 2453635748, 2870763221,
     3624381080, 310598401, 607225278, 1426881987,
     1925078388, 2162078206, 2614888103, 3248222580,
     3835390401, 4022224774, 264347078, 604807628,
     770255983, 1249150122, 1555081692, 1996064986,
     2554220882, 2821834349, 2952996808, 3210313671,
     3336571891, 3584528711, 113926993, 338241895,
     666307205, 773529912, 1294757372, 1396182291,
     1695183700, 1986661051, 2177026350, 2456956037,
     2730485921, 2820302411, 3259730800, 3345764771,
     3516065817, 3600352804, 4094571909, 275423344,
     430227734, 506948616, 659060556, 883997877,
     958139571, 1322822218, 1537002063, 1747873779,
     1955562222, 2024104815, 2227730452, 2361852424,
     2428436474, 2756734187, 3204031479, 3329325298]"

type_synonym sha256_regs =
  "32 word \<times> 32 word \<times> 32 word \<times> 32 word \<times> 32 word \<times> 32 word \<times> 32 word \<times> 32 word"

definition sha256_H0 :: sha256_regs where
  "sha256_H0 =
    (1779033703, 3144134277, 1013904242, 2773480762,
     1359893119, 2600822924, 528734635, 1541459225)"

definition sha256_pad :: "nat list \<Rightarrow> nat list" where
  "sha256_pad bytes =
    (let l = length bytes in
     bytes @ [128] @ replicate ((119 - l mod 64) mod 64) 0 @
     map (\<lambda>i. (8 * l) div 256 ^ (7 - i) mod 256) [0..<8])"

fun words_of_bytes :: "nat list \<Rightarrow> 32 word list" where
  "words_of_bytes (a # b # c # d # rest) =
    of_nat (a * 16777216 + b * 65536 + c * 256 + d) # words_of_bytes rest"
| "words_of_bytes _ = []"

definition bytes_of_word :: "32 word \<Rightarrow> nat list" where
  "bytes_of_word w =
    (let n = unat w in [n div 16777216, n div 65536 mod 256, n div 256 mod 256, n mod 256])"

definition ssig0 :: "32 word \<Rightarrow> 32 word" where
  "ssig0 x = word_rotr 7 x XOR word_rotr 18 x XOR drop_bit 3 x"

definition ssig1 :: "32 word \<Rightarrow> 32 word" where
  "ssig1 x = word_rotr 17 x XOR word_rotr 19 x XOR drop_bit 10 x"

definition bsig0 :: "32 word \<Rightarrow> 32 word" where
  "bsig0 x = word_rotr 2 x XOR word_rotr 13 x XOR word_rotr 22 x"

definition bsig1 :: "32 word \<Rightarrow> 32 word" where
  "bsig1 x = word_rotr 6 x XOR word_rotr 11 x XOR word_rotr 25 x"

fun sha256_schedule :: "nat \<Rightarrow> 32 word list \<Rightarrow> 32 word list" where
  "sha256_schedule 0 w = w"
| "sha256_schedule (Suc k) w =
    (let t = length w in
     sha256_schedule k
       (w @ [ssig1 (w ! (t - 2)) + w ! (t - 7) + ssig0 (w ! (t - 15)) + w ! (t - 16)]))"

definition sha256_round :: "32 word \<times> 32 word \<Rightarrow> sha256_regs \<Rightarrow> sha256_regs" where
  "sha256_round kw regs =
    (case (kw, regs) of ((k, w), (a, b, c, d, e, f, g, h)) \<Rightarrow>
      (let t1 = h + bsig1 e + ((e AND f) XOR (NOT e AND g)) + k + w;
           t2 = bsig0 a + ((a AND b) XOR (a AND c) XOR (b AND c))
       in (t1 + t2, a, b, c, d + t1, e, f, g)))"

definition sha256_compress :: "sha256_regs \<Rightarrow> 32 word list \<Rightarrow> sha256_regs" where
  "sha256_compress H block =
    (case (H, fold sha256_round (zip sha256_K (sha256_schedule 48 block)) H) of
       ((h0, h1, h2, h3, h4, h5, h6, h7), (a, b, c, d, e, f, g, h)) \<Rightarrow>
         (h0 + a, h1 + b, h2 + c, h3 + d, h4 + e, h5 + f, h6 + g, h7 + h))"

fun sha256_blocks :: "sha256_regs \<Rightarrow> 32 word list \<Rightarrow> sha256_regs" where
  "sha256_blocks H ws =
    (if length ws < 16 then H
     else sha256_blocks (sha256_compress H (take 16 ws)) (drop 16 ws))"

definition sha256 :: "string \<Rightarrow> string" where
  "sha256 msg =
    (case sha256_blocks sha256_H0
            (words_of_bytes (sha256_pad (map of_char msg))) of
       (h0, h1, h2, h3, h4, h5, h6, h7) \<Rightarrow>
         map char_of (concat (map bytes_of_word [h0, h1, h2, h3, h4, h5, h6, h7])))"

text \<open>
  \<^verbatim>\<open>crypto.getRandomValues(new Uint32Array(n))\<close>: the source of randomness is a sequence
  of 32-bit words; a call takes the next \<open>n\<close> of them.
\<close>

type_synonym entropy = "nat \<Rightarrow> 32 word"

definition getRandomValues :: "nat \<Rightarrow> entropy \<Rightarrow> 32 word list \<times> entropy" where
  "getRandomValues n rnd = (map rnd [0..<n], \<lambda>i. rnd (i + n))"

subsection \<open>Constants\<close>

definition Scopes :: "string list" where
  "Scopes =
    [''account:read'', ''user:read'', ''workers:write'', ''workers_kv:write'',
     ''workers_routes:write'', ''workers_scripts:write'', ''workers_tail:read'',
     ''zone:read'']"

definition CLIENT_ID :: string where
  "CLIENT_ID = ''54d11594-84e4-41aa-b438-e81b8fa78ee7''"

definition AUTH_URL :: string where
  "AUTH_URL = ''https://dash.cloudflare.com/oauth2/auth''"

definition TOKEN_URL :: string where
  "TOKEN_URL = ''https://dash.cloudflare.com/oauth2/token''"

definition CALLBACK_URL :: string where
  "CALLBACK_URL = ''http://localhost:8976/oauth/callback''"

definition RECOMMENDED_CODE_VERIFIER_LENGTH :: nat where
  "RECOMMENDED_CODE_VERIFIER_LENGTH = 96"

definition RECOMMENDED_STATE_LENGTH :: nat where
  "RECOMMENDED_STATE_LENGTH = 32"

definition PKCE_CHARSET :: string where
  "PKCE_CHARSET =
    ''ABCDEFGHIJKLMNOPQRSTUVWXYZabcdefghijklmnopqrstuvwxyz0123456789-._~''"

subsection \<open>PKCE codes and the authorization URL\<close>

definition base64urlEncode :: "string \<Rightarrow> string" where
  "base64urlEncode v =
    (let base64 = btoa v;
         base64 = replace_all (CHR ''+'') ''-'' base64;
         base64 = replace_all (CHR ''/'') ''_'' base64;
         base64 = replace_all (CHR ''='') [] base64
     in base64)"

definition charset_pick :: "32 word \<Rightarrow> char" where
  "charset_pick num = PKCE_CHARSET ! (unat num mod length PKCE_CHARSET)"

text \<open>
  The verifier is ASCII, so \<^verbatim>\<open>TextEncoder\<close> gives its characters as bytes; the loop
  over the digest gives the bytes back as characters.
\<close>

definition generatePKCECodes :: "entropy \<Rightarrow> PKCECodes \<times> entropy" where
  "generatePKCECodes rnd =
    (let (output, rnd') = getRandomValues RECOMMENDED_CODE_VERIFIER_LENGTH rnd;
         codeVerifier = base64urlEncode (map charset_pick output);
         binary = sha256 codeVerifier;
         codeChallenge = base64urlEncode binary
     in (\<lparr>pk_codeChallenge = codeChallenge, pk_codeVerifier = codeVerifier\<rparr>, rnd'))"

definition generateRandomState :: "nat \<Rightarrow> entropy \<Rightarrow> string \<times> entropy" where
  "generateRandomState lengthOfState rnd =
    (let (output, rnd') = getRandomValues lengthOfState rnd
     in (map charset_pick output, rnd'))"

text \<open>\<open>getAuthURL\<close> returns the URL, \<^verbatim>\<open>LocalState\<close> afterwards and what is left of the randomness.\<close>

definition getAuthURL :: "entropy \<Rightarrow> State \<Rightarrow> string \<times> State \<times> entropy" where
  "getAuthURL rnd LocalState =
    (let (codes, rnd1) = generatePKCECodes rnd;
         (stateQueryParam', rnd2) = generateRandomState RECOMMENDED_STATE_LENGTH rnd1;
         LocalState' = LocalState\<lparr>codeChallenge := Some (pk_codeChallenge codes),
                                  codeVerifier := Some (pk_codeVerifier codes),
                                  stateQueryParam := Some stateQueryParam'\<rparr>
     in (AUTH_URL @ ''?response_type=code&'' @
         ''client_id='' @ encodeURIComponent CLIENT_ID @ ''&'' @
         ''redirect_uri='' @ encodeURIComponent CALLBACK_URL @ ''&'' @
         ''scope='' @ encodeURIComponent (join_str '' '' (Scopes @ [''offline_access''])) @ ''&'' @
         ''state='' @ stateQueryParam' @ ''&'' @
         ''code_challenge='' @ encodeURIComponent (pk_codeChallenge codes) @ ''&'' @
         ''code_challenge_method=S256'',
         LocalState', rnd2))"

subsection \<open>The token endpoint\<close>

text \<open>
  \<^verbatim>\<open>fetch\<close> is a parameter: the network answers a request either by rejecting
  (no connection) or with a status and a body; the body is \<open>None\<close> when
  \<^verbatim>\<open>response.json()\<close> rejects because the text is not JSON.
\<close>

datatype reply = Rejected | Response nat "token_json option"

definition response_ok :: "nat \<Rightarrow> bool" where
  "response_ok status = (200 \<le> status \<and> status \<le> 299)"

definition token_request :: "string \<Rightarrow> request" where
  "token_request body =
    \<lparr>req_url = TOKEN_URL, req_method = ''POST'', req_body = body,
     req_content_type = ''application/x-www-form-urlencoded''\<rparr>"

text \<open>
  The part that both exchanges share textually: from the refresh token and the scope
  of the response to \<^verbatim>\<open>LocalState\<close> and the \<^verbatim>\<open>AccessContext\<close> returned.
\<close>

definition store_refresh_token :: "token_json \<Rightarrow> State \<Rightarrow> State" where
  "store_refresh_token json LocalState =
    (case refresh_token json of
       None \<Rightarrow> LocalState
     | Some r \<Rightarrow> if r = [] then LocalState
                else LocalState\<lparr>refreshToken := Some \<lparr>rt_value = r\<rparr>\<rparr>)"

definition store_scopes :: "token_json \<Rightarrow> State \<Rightarrow> string list \<times> State" where
  "store_scopes json LocalState =
    (case scope json of
       None \<Rightarrow> ([], LocalState)
     | Some sc \<Rightarrow> if sc = [] then ([], LocalState)
                 else (let scopes' = split_str (CHR '' '') sc
                       in (scopes', LocalState\<lparr>scopes := Some scopes'\<rparr>)))"

definition expiry_time :: "int \<Rightarrow> token_json \<Rightarrow> int option" where
  "expiry_time now json = TimeClip (map_option (\<lambda>n. now + n * 1000) (expires_in json))"

text \<open>
  \<open>now\<close> is what \<^verbatim>\<open>Date.now()\<close> returns when the response is processed.
\<close>

definition auth_code_warnings :: "State \<Rightarrow> effect list" where
  "auth_code_warnings LocalState =
    (if or_else (codeVerifier LocalState) [] = [] then
       [ConsoleWarn ''No code verifier is being sent.'']
     else if \<not> truthy (authorizationCode LocalState) then
       [ConsoleWarn ''No authorization grant code is being passed.'']
     else [])"

definition auth_code_body :: "State \<Rightarrow> string" where
  "auth_code_body LocalState =
    ''grant_type=authorization_code&'' @
    ''code='' @ encodeURIComponent (or_else (authorizationCode LocalState) []) @ ''&'' @
    ''redirect_uri='' @ encodeURIComponent CALLBACK_URL @ ''&'' @
    ''client_id='' @ encodeURIComponent CLIENT_ID @ ''&'' @
    ''code_verifier='' @ or_else (codeVerifier LocalState) []"

definition exchangeAuthCodeForAccessToken ::
    "(request \<Rightarrow> reply) \<Rightarrow> int \<Rightarrow> State \<Rightarrow> AccessContext outcome" where
  "exchangeAuthCodeForAccessToken fetch now LocalState =
    (let body = auth_code_body LocalState;
         es = auth_code_warnings LocalState @ [Fetch (token_request body)]
     in case fetch (token_request body) of
          Rejected \<Rightarrow> \<lparr>result = Inl FetchRejected, state = LocalState, effects = es\<rparr>
        | Response status parsed \<Rightarrow>
           (if \<not> response_ok status then
              (case parsed of
                 None \<Rightarrow> \<lparr>result = Inl JsonRejected, state = LocalState, effects = es\<rparr>
               | Some json \<Rightarrow>
                  \<lparr>result = Inl (toErrorClass (error_field json)), state = LocalState,
                   effects = es @
                     (if error_field json = Some ''invalid_grant'' then
                        [ConsoleLog ''Expired! Auth code or refresh token needs to be renewed.'']
                      else [])\<rparr>)
            else
              (case parsed of
                 None \<Rightarrow> \<lparr>result = Inl JsonRejected, state = LocalState, effects = es\<rparr>
               | Some json \<Rightarrow>
                  (let LocalState1 =
                         LocalState\<lparr>hasAuthCodeBeenExchangedForAccessToken := Some True\<rparr>
                   in case toISOString (expiry_time now json) of
                        Inl err \<Rightarrow> \<lparr>result = Inl err, state = LocalState1, effects = es\<rparr>
                      | Inr isoText \<Rightarrow>
                         (let accessToken' = \<lparr>at_value = access_token json, expiry = isoText\<rparr>;
                              LocalState2 = LocalState1\<lparr>accessToken := Some accessToken'\<rparr>;
                              LocalState3 = store_refresh_token json LocalState2;
                              (scopes', LocalState4) = store_scopes json LocalState3
                          in \<lparr>result = Inr \<lparr>ctx_token = Some accessToken',
                                             ctx_scopes = Some scopes',
                                             ctx_refreshToken = refreshToken LocalState4\<rparr>,
                              state = LocalState4, effects = es\<rparr>)))))"

text \<open>The \<^verbatim>\<open>error\<close> property of a thrown value, as the \<^verbatim>\<open>catch\<close> block reads it.\<close>

definition thrown_error :: "thrown \<Rightarrow> string option" where
  "thrown_error err = (case err of ThrownBody json \<Rightarrow> error_field json | _ \<Rightarrow> None)"

text \<open>The \<^verbatim>\<open>try\<close> block of \<open>exchangeRefreshTokenForAccessToken\<close>.\<close>

definition refresh_try :: "int \<Rightarrow> token_json option \<Rightarrow> State \<Rightarrow> AccessContext outcome" where
  "refresh_try now parsed LocalState =
    (case parsed of
       None \<Rightarrow> \<lparr>result = Inl JsonRejected, state = LocalState, effects = []\<rparr>
     | Some json \<Rightarrow>
        (case toISOString (expiry_time now json) of
           Inl err \<Rightarrow> \<lparr>result = Inl err, state = LocalState, effects = []\<rparr>
         | Inr isoText \<Rightarrow>
            (let accessToken' = \<lparr>at_value = access_token json, expiry = isoText\<rparr>;
                 LocalState1 = LocalState\<lparr>accessToken := Some accessToken'\<rparr>;
                 LocalState2 = store_refresh_token json LocalState1;
                 (scopes', LocalState3) = store_scopes json LocalState2
             in \<lparr>result = Inr \<lparr>ctx_token = Some accessToken',
                                ctx_scopes = Some scopes',
                                ctx_refreshToken = refreshToken LocalState3\<rparr>,
                 state = LocalState3, effects = []\<rparr>)))"

text \<open>Its \<^verbatim>\<open>catch\<close> block.\<close>

definition refresh_catch :: "thrown \<Rightarrow> State \<Rightarrow> AccessContext outcome" where
  "refresh_catch err LocalState =
    (let error' = or_else (thrown_error err) ''There was a network error.''
     in \<lparr>result = Inl (toErrorClass (Some error')), state = LocalState,
         effects = (if error' = ''invalid_grant'' then
                      [ConsoleLog ''Expired! Auth code or refresh token needs to be renewed.'']
                    else [])\<rparr>)"

definition refresh_body :: "State \<Rightarrow> string" where
  "refresh_body LocalState =
    ''grant_type=refresh_token&'' @
    ''refresh_token='' @
      (case refreshToken LocalState of None \<Rightarrow> ''undefined'' | Some r \<Rightarrow> rt_value r) @ ''&'' @
    ''client_id='' @ CLIENT_ID"

definition exchangeRefreshTokenForAccessToken ::
    "(request \<Rightarrow> reply) \<Rightarrow> int \<Rightarrow> State \<Rightarrow> AccessContext outcome" where
  "exchangeRefreshTokenForAccessToken fetch now LocalState =
    (let warned = (if refreshToken LocalState = None then
                     [ConsoleWarn ''No refresh token is present.'']
                   else []);
         body = refresh_body LocalState;
         es = warned @ [Fetch (token_request body)]
     in case fetch (token_request body) of
          Rejected \<Rightarrow> \<lparr>result = Inl FetchRejected, state = LocalState, effects = es\<rparr>
        | Response status parsed \<Rightarrow>
           (if status \<ge> 400 then
              (case parsed of
                 None \<Rightarrow> \<lparr>result = Inl JsonRejected, state = LocalState, effects = es\<rparr>
               | Some json \<Rightarrow>
                  \<lparr>result = Inl (ThrownBody json), state = LocalState, effects = es\<rparr>)
            else
              (let tried = refresh_try now parsed LocalState
               in case result tried of
                    Inr ctx \<Rightarrow> tried\<lparr>effects := es @ effects tried\<rparr>
                  | Inl err \<Rightarrow>
                     (let caught = refresh_catch err (state tried)
                      in caught\<lparr>effects := es @ effects tried @ effects caught\<rparr>))))"

subsection \<open>The callback listener and the expiry check\<close>

text \<open>
  The request handler of \<^verbatim>\<open>server\<close>, on the path and the query of the request. The
  handler is an async function: an exception of the exchange rejects its promise and
  no response is sent. Writing the configuration file is an effect that succeeds.
\<close>

datatype handled = Responded nat

definition server ::
    "(request \<Rightarrow> reply) \<Rightarrow> int \<Rightarrow> State \<Rightarrow> string \<Rightarrow> query \<Rightarrow> handled outcome" where
  "server fetch now LocalState pathname q =
    (if pathname = ''/oauth/callback'' then
       (let checked = isReturningFromAuthServer LocalState q;
            hasAuthCode = (case result checked of Inl err \<Rightarrow> False | Inr b \<Rightarrow> b);
            es = effects checked @
                 (case result checked of Inl err \<Rightarrow> [ConsoleLogThrown err] | Inr b \<Rightarrow> []);
            LocalState1 = state checked
        in if \<not> hasAuthCode then
             \<lparr>result = Inr (Responded 200), state = LocalState1,
              effects = es @ [ConsoleLog ''no auth code, render error page'']\<rparr>
           else if q_code q = authorizationCode LocalState1 then
             (let exchanged = exchangeAuthCodeForAccessToken fetch now LocalState1
              in case result exchanged of
                   Inl err \<Rightarrow>
                     \<lparr>result = Inl err, state = state exchanged,
                      effects = es @ effects exchanged\<rparr>
                 | Inr tokenData \<Rightarrow>
                     \<lparr>result = Inr (Responded 200), state = state exchanged,
                      effects = es @ effects exchanged @
                        [ConsoleLogContext tokenData, WriteConfigFile tokenData]\<rparr>)
           else
             \<lparr>result = Inr (Responded 200), state = LocalState1,
              effects = es @ [ConsoleLog ''not matching?'']\<rparr>)
     else \<lparr>result = Inr (Responded 200), state = LocalState, effects = []\<rparr>)"

definition isAccessTokenExpired :: "int \<Rightarrow> State \<Rightarrow> bool" where
  "isAccessTokenExpired now LocalState =
    (case accessToken LocalState of
       None \<Rightarrow> False
     | Some tok \<Rightarrow>
        (case Date_of_string (expiry tok) of
           None \<Rightarrow> False
         | Some t \<Rightarrow> now \<ge> t))"


subsection \<open>Sample inputs\<close>

text \<open>
  Inputs at which the theorems below are evaluated: the success response and the error
  response of a token endpoint, a success response without \<^verbatim>\<open>expires_in\<close> (the field
  is optional in RFC 6749), a network that gives the same answer to every request, and
  \<^verbatim>\<open>LocalState\<close> after an accepted callback.
\<close>

definition granted_json :: "string option \<Rightarrow> token_json" where
  "granted_json r =
    \<lparr>access_token = Some ''T'', expires_in = Some 3600, refresh_token = r,
     scope = Some ''account:read workers:write'', error_field = None\<rparr>"

definition invalid_grant_json :: token_json where
  "invalid_grant_json =
    \<lparr>access_token = None, expires_in = None, refresh_token = None, scope = None,
     error_field = Some ''invalid_grant''\<rparr>"

definition no_expiry_json :: token_json where
  "no_expiry_json =
    \<lparr>access_token = Some ''T'', expires_in = None, refresh_token = Some ''R'',
     scope = None, error_field = None\<rparr>"

definition answering :: "nat \<Rightarrow> token_json option \<Rightarrow> request \<Rightarrow> reply" where
  "answering status body = (\<lambda>r. Response status body)"

definition pending_state :: State where
  "pending_state =
    LocalState0\<lparr>authorizationCode := Some ''abc123'', codeVerifier := Some ''verifier'',
                 hasAuthCodeBeenExchangedForAccessToken := Some False,
                 refreshToken := Some \<lparr>rt_value = ''old''\<rparr>,
                 stateQueryParam := Some ''s3cr3t''\<rparr>"

text \<open>
  A sequence of two callbacks: \<^verbatim>\<open>LocalState\<close> while the user is in the browser, the
  callback that answers it, \<^verbatim>\<open>LocalState\<close> after the listener has handled that callback
  and exchanged its code, and a later callback with another code and the same state
  value.
\<close>

definition awaiting_state :: State where
  "awaiting_state =
    LocalState0\<lparr>codeVerifier := Some ''verifier'', stateQueryParam := Some ''s3cr3t''\<rparr>"

definition first_callback :: query where
  "first_callback = \<lparr>q_error = None, q_code = Some ''abc123'', q_state = Some ''s3cr3t''\<rparr>"

definition second_callback :: query where
  "second_callback = \<lparr>q_error = None, q_code = Some ''evil456'', q_state = Some ''s3cr3t''\<rparr>"

definition accepted_state :: State where
  "accepted_state =
    state (server (answering 200 (Some (granted_json (Some ''R'')))) 1700000000000
             awaiting_state ''/oauth/callback'' first_callback)"

section \<open>Properties\<close>

subsection \<open>Evaluation rules\<close>

lemma truthy_simps:
  "truthy None = False" "truthy (Some s) = (s \<noteq> [])"
  by (simp_all add: truthy_def)

subsection \<open>Base64 and the PKCE codes\<close>

lemma of_char_less_256: "(of_char c :: nat) < 256"
proof -
  have "(of_char c :: nat) mod 256 < 256" by simp
  then show ?thesis by (simp only: of_char_mod_256)
qed

lemma length_b64_alphabet: "length b64_alphabet = 64"
  by (simp add: b64_alphabet_def)

lemma b64_in_alphabet: "i < 64 \<Longrightarrow> b64 i \<in> set b64_alphabet"
  unfolding b64_def by (rule nth_mem) (simp add: length_b64_alphabet)

lemma pad_not_in_alphabet: "CHR ''='' \<notin> set b64_alphabet"
  by (simp add: b64_alphabet_def)

lemma b64_not_pad: "i < 64 \<Longrightarrow> CHR ''='' \<noteq> b64 i"
  using b64_in_alphabet [of i] pad_not_in_alphabet by auto

lemma length_btoa: "length (btoa xs) = 4 * ((length xs + 2) div 3)"
proof (induction xs rule: btoa.induct)
  case (1 a b c rest)
  have "(length rest + 5) div 3 = (length rest + 2) div 3 + 1" by presburger
  with 1 show ?case by (simp add: Let_def add.commute)
qed (simp_all add: Let_def)

lemma btoa_no_pad:
  "length xs mod 3 = 0 \<Longrightarrow> CHR ''='' \<notin> set (btoa xs)"
proof (induction xs rule: btoa.induct)
  case (1 a b c rest)
  let ?n = "of_char a * 65536 + of_char b * 256 + (of_char c :: nat)"
  have "?n < 16777216"
    using of_char_less_256 [of a] of_char_less_256 [of b] of_char_less_256 [of c] by linarith
  then have "?n div 262144 < 64" by simp
  moreover have "length rest mod 3 = 0" using "1.prems" by simp
  ultimately show ?case
    using "1.IH" by (simp add: Let_def b64_not_pad)
qed simp_all

lemma set_replace_all:
  "set (replace_all c r s) = (set s - {c}) \<union> (if c \<in> set s then set r else {})"
  by (induction s) (auto simp add: replace_all_def)

lemma replace_all_absent: "c \<notin> set s \<Longrightarrow> replace_all c r s = s"
  by (induction s) (auto simp add: replace_all_def)

lemma length_replace_all_single: "length (replace_all c [d] s) = length s"
  by (induction s) (auto simp add: replace_all_def)

lemma base64urlEncode_chars:
  "set (base64urlEncode v) \<inter> {CHR ''+'', CHR ''/'', CHR ''=''} = {}"
  by (auto simp add: base64urlEncode_def Let_def set_replace_all split: if_splits)

lemma replace_all_keeps_absent:
  "c \<notin> set s \<Longrightarrow> c \<notin> set r \<Longrightarrow> c \<notin> set (replace_all x r s)"
  by (induction s) (auto simp add: replace_all_def)

lemma length_base64urlEncode:
  assumes "length v mod 3 = 0"
  shows "length (base64urlEncode v) = 4 * (length v div 3)"
proof -
  have "CHR ''='' \<notin> set (btoa v)" using assms by (rule btoa_no_pad)
  then have "CHR ''='' \<notin> set (replace_all (CHR ''+'') ''-'' (btoa v))"
    by (rule replace_all_keeps_absent) simp
  then have "CHR ''='' \<notin> set (replace_all (CHR ''/'') ''_'' (replace_all (CHR ''+'') ''-'' (btoa v)))"
    by (rule replace_all_keeps_absent) simp
  then have "base64urlEncode v = replace_all (CHR ''/'') ''_'' (replace_all (CHR ''+'') ''-'' (btoa v))"
    by (simp add: base64urlEncode_def Let_def replace_all_absent)
  then have "length (base64urlEncode v) = length (btoa v)"
    by (simp add: length_replace_all_single)
  also have "\<dots> = 4 * ((length v + 2) div 3)" by (rule length_btoa)
  also have "(length v + 2) div 3 = length v div 3"
    using assms by (auto simp add: mod_eq_0_iff_dvd elim!: dvdE)
  finally show ?thesis .
qed

lemma pk_codeVerifier_eq:
  "pk_codeVerifier (fst (generatePKCECodes rnd)) =
     base64urlEncode (map charset_pick (map rnd [0..<96]))"
  by (simp add: generatePKCECodes_def getRandomValues_def Let_def
      RECOMMENDED_CODE_VERIFIER_LENGTH_def)

text \<open>
  Claim C8. Whatever the random words are, the code verifier has between 43 and 128
  characters, the code challenge is the unpadded base64url encoding of the SHA-256
  digest of the verifier, and neither of them contains \<^verbatim>\<open>+\<close>, \<^verbatim>\<open>/\<close> or \<^verbatim>\<open>=\<close>.
\<close>

theorem generatePKCECodes_shape:
  "43 \<le> length (pk_codeVerifier (fst (generatePKCECodes rnd)))
   \<and> length (pk_codeVerifier (fst (generatePKCECodes rnd))) \<le> 128
   \<and> pk_codeChallenge (fst (generatePKCECodes rnd)) =
       base64urlEncode (sha256 (pk_codeVerifier (fst (generatePKCECodes rnd))))
   \<and> set (pk_codeVerifier (fst (generatePKCECodes rnd)))
        \<inter> {CHR ''+'', CHR ''/'', CHR ''=''} = {}
   \<and> set (pk_codeChallenge (fst (generatePKCECodes rnd)))
        \<inter> {CHR ''+'', CHR ''/'', CHR ''=''} = {}"
proof -
  have len: "length (pk_codeVerifier (fst (generatePKCECodes rnd))) = 128"
    by (simp add: pk_codeVerifier_eq length_base64urlEncode)
  have chal: "pk_codeChallenge (fst (generatePKCECodes rnd)) =
       base64urlEncode (sha256 (pk_codeVerifier (fst (generatePKCECodes rnd))))"
    by (simp add: generatePKCECodes_def getRandomValues_def Let_def)
  have v: "set (pk_codeVerifier (fst (generatePKCECodes rnd)))
        \<inter> {CHR ''+'', CHR ''/'', CHR ''=''} = {}"
    unfolding pk_codeVerifier_eq by (rule base64urlEncode_chars)
  have c: "set (pk_codeChallenge (fst (generatePKCECodes rnd)))
        \<inter> {CHR ''+'', CHR ''/'', CHR ''=''} = {}"
    unfolding chal by (rule base64urlEncode_chars)
  from len chal v c show ?thesis by simp
qed

subsection \<open>The callback check\<close>

text \<open>
  Claim C5. The callback check applies its tests in a fixed order: a provider error
  first, then a missing code, then the comparison of the state parameter, then
  acceptance. A query with \<^verbatim>\<open>error=access_denied\<close> yields \<open>ErrorAccessDenied\<close> whatever
  its other parameters are, and a query without a code (and without an error) returns
  \<open>false\<close>, throws nothing and leaves \<^verbatim>\<open>LocalState\<close> as it was.
\<close>

theorem callback_check_order:
  "(truthy (q_error q) \<longrightarrow>
      isReturningFromAuthServer s q =
        \<lparr>result = Inl (toErrorClass (q_error q)), state = s, effects = []\<rparr>)
   \<and> (q_error q = Some ''access_denied'' \<longrightarrow>
      result (isReturningFromAuthServer s q) = Inl (OAuth ErrorAccessDenied)
      \<and> state (isReturningFromAuthServer s q) = s)
   \<and> (\<not> truthy (q_error q) \<and> \<not> truthy (q_code q) \<longrightarrow>
      isReturningFromAuthServer s q = \<lparr>result = Inr False, state = s, effects = []\<rparr>)
   \<and> (\<not> truthy (q_error q) \<and> truthy (q_code q) \<and> q_state q \<noteq> stateQueryParam s \<longrightarrow>
      result (isReturningFromAuthServer s q) = Inl (OAuth ErrorInvalidReturnedStateParam)
      \<and> state (isReturningFromAuthServer s q) = s)
   \<and> (\<not> truthy (q_error q) \<and> truthy (q_code q) \<and> q_state q = stateQueryParam s \<longrightarrow>
      result (isReturningFromAuthServer s q) = Inr True
      \<and> state (isReturningFromAuthServer s q) =
          s\<lparr>authorizationCode := q_code q,
            hasAuthCodeBeenExchangedForAccessToken := Some False\<rparr>)"
  by (simp add: isReturningFromAuthServer_def truthy_simps toErrorClass_def
      RawErrorToErrorClassMap_def)

theorem callback_check_order_witness:
  "result (isReturningFromAuthServer LocalState0
      \<lparr>q_error = Some ''access_denied'', q_code = None, q_state = Some ''bogus''\<rparr>)
     = Inl (OAuth ErrorAccessDenied)
   \<and> isReturningFromAuthServer LocalState0
      \<lparr>q_error = None, q_code = None, q_state = Some ''bogus''\<rparr>
     = \<lparr>result = Inr False, state = LocalState0, effects = []\<rparr>
   \<and> result (isReturningFromAuthServer LocalState0
      \<lparr>q_error = None, q_code = Some ''abc123'', q_state = Some ''bogus''\<rparr>)
     = Inl (OAuth ErrorInvalidReturnedStateParam)
   \<and> result (isReturningFromAuthServer LocalState0
      \<lparr>q_error = None, q_code = Some ''abc123'', q_state = None\<rparr>)
     = Inr True"
  using callback_check_order [of "\<lparr>q_error = Some ''access_denied'', q_code = None, q_state = Some ''bogus''\<rparr>" LocalState0]
    callback_check_order [of "\<lparr>q_error = None, q_code = None, q_state = Some ''bogus''\<rparr>" LocalState0]
    callback_check_order [of "\<lparr>q_error = None, q_code = Some ''abc123'', q_state = Some ''bogus''\<rparr>" LocalState0]
    callback_check_order [of "\<lparr>q_error = None, q_code = Some ''abc123'', q_state = None\<rparr>" LocalState0]
  by (simp add: truthy_simps LocalState0_def isReturningFromAuthServer_def toErrorClass_def
      RawErrorToErrorClassMap_def)

text \<open>
  Claim C7. A callback with a code and no state parameter is rejected with
  \<open>ErrorInvalidReturnedStateParam\<close> exactly when a state value is stored, and is
  accepted exactly when none is.
\<close>

theorem callback_without_state:
  assumes "\<not> truthy (q_error q)" and "truthy (q_code q)" and "q_state q = None"
  shows "((result (isReturningFromAuthServer s q) = Inl (OAuth ErrorInvalidReturnedStateParam)
            \<and> state (isReturningFromAuthServer s q) = s)
          = (stateQueryParam s \<noteq> None))
       \<and> ((result (isReturningFromAuthServer s q) = Inr True) = (stateQueryParam s = None))"
  using assms by (cases "stateQueryParam s") (simp_all add: isReturningFromAuthServer_def)

theorem callback_without_state_witness:
  "\<not> truthy (q_error \<lparr>q_error = None, q_code = Some ''abc123'', q_state = None\<rparr>)
   \<and> truthy (q_code \<lparr>q_error = None, q_code = Some ''abc123'', q_state = None\<rparr>)
   \<and> result (isReturningFromAuthServer (LocalState0\<lparr>stateQueryParam := Some ''s3cr3t''\<rparr>)
        \<lparr>q_error = None, q_code = Some ''abc123'', q_state = None\<rparr>)
       = Inl (OAuth ErrorInvalidReturnedStateParam)
   \<and> state (isReturningFromAuthServer (LocalState0\<lparr>stateQueryParam := Some ''s3cr3t''\<rparr>)
        \<lparr>q_error = None, q_code = Some ''abc123'', q_state = None\<rparr>)
       = LocalState0\<lparr>stateQueryParam := Some ''s3cr3t''\<rparr>
   \<and> result (isReturningFromAuthServer LocalState0
        \<lparr>q_error = None, q_code = Some ''abc123'', q_state = None\<rparr>) = Inr True"
  using callback_without_state [of "\<lparr>q_error = None, q_code = Some ''abc123'', q_state = None\<rparr>"
      "LocalState0\<lparr>stateQueryParam := Some ''s3cr3t''\<rparr>"]
    callback_without_state [of "\<lparr>q_error = None, q_code = Some ''abc123'', q_state = None\<rparr>"
      LocalState0]
  by (simp add: truthy_simps LocalState0_def)

subsection \<open>The authorization URL and the callback\<close>

lemma getAuthURL_state:
  "fst (snd (getAuthURL rnd s0)) =
     s0\<lparr>codeChallenge := Some (pk_codeChallenge (fst (generatePKCECodes rnd))),
        codeVerifier := Some (pk_codeVerifier (fst (generatePKCECodes rnd))),
        stateQueryParam := Some (map charset_pick (map (\<lambda>i. rnd (i + 96)) [0..<32]))\<rparr>"
  by (simp add: getAuthURL_def generatePKCECodes_def generateRandomState_def
      getRandomValues_def Let_def RECOMMENDED_CODE_VERIFIER_LENGTH_def
      RECOMMENDED_STATE_LENGTH_def)

text \<open>
  Claim C6. Round trip: \<open>getAuthURL\<close> stores a fresh state value of 32 characters;
  afterwards a callback with a code and exactly that state value is accepted (the code
  is stored and the exchanged flag is set to false), and a callback with a code and any
  other state value, or none, throws \<open>ErrorInvalidReturnedStateParam\<close> and stores
  nothing.
\<close>

theorem authorization_round_trip:
  assumes "\<not> truthy (q_error q)" and "truthy (q_code q)"
  shows "(\<exists>v. stateQueryParam (fst (snd (getAuthURL rnd s0))) = Some v \<and> length v = 32)
    \<and> (q_state q = stateQueryParam (fst (snd (getAuthURL rnd s0))) \<longrightarrow>
          result (isReturningFromAuthServer (fst (snd (getAuthURL rnd s0))) q) = Inr True
          \<and> state (isReturningFromAuthServer (fst (snd (getAuthURL rnd s0))) q) =
              (fst (snd (getAuthURL rnd s0)))
                \<lparr>authorizationCode := q_code q,
                 hasAuthCodeBeenExchangedForAccessToken := Some False\<rparr>)
    \<and> (q_state q \<noteq> stateQueryParam (fst (snd (getAuthURL rnd s0))) \<longrightarrow>
          result (isReturningFromAuthServer (fst (snd (getAuthURL rnd s0))) q) =
            Inl (OAuth ErrorInvalidReturnedStateParam)
          \<and> state (isReturningFromAuthServer (fst (snd (getAuthURL rnd s0))) q) =
              fst (snd (getAuthURL rnd s0))
          \<and> authorizationCode (state (isReturningFromAuthServer (fst (snd (getAuthURL rnd s0))) q))
              = authorizationCode s0)"
proof -
  have "stateQueryParam (fst (snd (getAuthURL rnd s0))) =
          Some (map charset_pick (map (\<lambda>i. rnd (i + 96)) [0..<32]))"
    by (simp add: getAuthURL_state)
  moreover have "authorizationCode (fst (snd (getAuthURL rnd s0))) = authorizationCode s0"
    by (simp add: getAuthURL_state)
  ultimately show ?thesis
    using assms by (simp add: isReturningFromAuthServer_def)
qed

lemma upt_0_32:
  "[0..<32] = [0, 1, 2, 3, 4, 5, 6, 7, 8, 9, 10, 11, 12, 13, 14, 15, 16, 17, 18, 19, 20,
               21, 22, 23, 24, 25, 26, 27, 28, 29, 30, 31 :: nat]"
  by code_simp

lemma sample_state:
  "stateQueryParam (fst (snd (getAuthURL of_nat LocalState0))) =
     Some ''efghijklmnopqrstuvwxyz0123456789''"
  by (simp add: getAuthURL_state upt_0_32 charset_pick_def PKCE_CHARSET_def)

theorem authorization_round_trip_witness:
  "\<not> truthy None \<and> truthy (Some ''abc123'')
   \<and> stateQueryParam (fst (snd (getAuthURL of_nat LocalState0))) =
        Some ''efghijklmnopqrstuvwxyz0123456789''
   \<and> result (isReturningFromAuthServer (fst (snd (getAuthURL of_nat LocalState0)))
        \<lparr>q_error = None, q_code = Some ''abc123'',
         q_state = Some ''efghijklmnopqrstuvwxyz0123456789''\<rparr>) = Inr True
   \<and> authorizationCode (state (isReturningFromAuthServer
        (fst (snd (getAuthURL of_nat LocalState0)))
        \<lparr>q_error = None, q_code = Some ''abc123'',
         q_state = Some ''efghijklmnopqrstuvwxyz0123456789''\<rparr>)) = Some ''abc123''
   \<and> result (isReturningFromAuthServer (fst (snd (getAuthURL of_nat LocalState0)))
        \<lparr>q_error = None, q_code = Some ''abc123'',
         q_state = Some ''efghijklmnopqrstuvwxyz012345678X''\<rparr>) =
        Inl (OAuth ErrorInvalidReturnedStateParam)
   \<and> authorizationCode (state (isReturningFromAuthServer
        (fst (snd (getAuthURL of_nat LocalState0)))
        \<lparr>q_error = None, q_code = Some ''abc123'',
         q_state = Some ''efghijklmnopqrstuvwxyz012345678X''\<rparr>)) = None"
proof -
  have none: "authorizationCode (fst (snd (getAuthURL of_nat LocalState0))) = None"
    by (simp add: getAuthURL_state LocalState0_def)
  show ?thesis
    using authorization_round_trip [of "\<lparr>q_error = None, q_code = Some ''abc123'',
         q_state = Some ''efghijklmnopqrstuvwxyz0123456789''\<rparr>" of_nat LocalState0]
    authorization_round_trip [of "\<lparr>q_error = None, q_code = Some ''abc123'',
         q_state = Some ''efghijklmnopqrstuvwxyz012345678X''\<rparr>" of_nat LocalState0]
    by (simp add: truthy_simps sample_state none)
qed

subsection \<open>The token exchanges\<close>

lemma split_sample:
  "split_str (CHR '' '') ''account:read workers:write'' = [''account:read'', ''workers:write'']"
  by simp

text \<open>
  Claim C9. When the token endpoint answers with success and the body
  \<^verbatim>\<open>{access_token:"T", expires_in:3600, refresh_token:"R", scope:"account:read workers:write"}\<close>
  at time \<open>t0\<close>, both exchanges return a context whose token expires at \<open>t0\<close> plus 3600
  seconds, whose refresh token is \<^verbatim>\<open>R\<close> and whose scopes are \<^verbatim>\<open>account:read\<close> and
  \<^verbatim>\<open>workers:write\<close>; when the body has no \<^verbatim>\<open>refresh_token\<close>, the context carries the
  refresh token stored before.
\<close>

theorem exchange_success_context:
  assumes "response_ok status"
    and "\<bar>t0 + 3600 * 1000\<bar> \<le> 8640000000000000"
    and "access_token json = Some ''T''"
    and "expires_in json = Some 3600"
    and "scope json = Some ''account:read workers:write''"
    and "refresh_token json = Some ''R'' \<or> refresh_token json = None"
    and "fetch (token_request (auth_code_body s)) = Response status (Some json)"
    and "fetch (token_request (refresh_body s)) = Response status (Some json)"
  shows "(\<exists>ctx. result (exchangeAuthCodeForAccessToken fetch t0 s) = Inr ctx
            \<and> ctx_token ctx = Some \<lparr>at_value = Some ''T'', expiry = ISOString (t0 + 3600 * 1000)\<rparr>
            \<and> ctx_scopes ctx = Some [''account:read'', ''workers:write'']
            \<and> ctx_refreshToken ctx =
                (if refresh_token json = Some ''R'' then Some \<lparr>rt_value = ''R''\<rparr>
                 else refreshToken s))
       \<and> (\<exists>ctx. result (exchangeRefreshTokenForAccessToken fetch t0 s) = Inr ctx
            \<and> ctx_token ctx = Some \<lparr>at_value = Some ''T'', expiry = ISOString (t0 + 3600 * 1000)\<rparr>
            \<and> ctx_scopes ctx = Some [''account:read'', ''workers:write'']
            \<and> ctx_refreshToken ctx =
                (if refresh_token json = Some ''R'' then Some \<lparr>rt_value = ''R''\<rparr>
                 else refreshToken s))"
proof -
  have t: "toISOString (expiry_time t0 json) = Inr (ISOString (t0 + 3600 * 1000))"
    using assms(2,4) by (simp add: expiry_time_def TimeClip_def toISOString_def)
  have sc: "store_scopes json st =
      ([''account:read'', ''workers:write''],
       st\<lparr>scopes := Some [''account:read'', ''workers:write'']\<rparr>)" for st
    using assms(5) by (simp add: store_scopes_def Let_def)
  have rt: "refreshToken (store_refresh_token json st) =
      (if refresh_token json = Some ''R'' then Some \<lparr>rt_value = ''R''\<rparr> else refreshToken st)" for st
    using assms(6) by (auto simp add: store_refresh_token_def)
  have lt: "\<not> 400 \<le> status" using assms(1) by (simp add: response_ok_def)
  have a: "\<exists>ctx. result (exchangeAuthCodeForAccessToken fetch t0 s) = Inr ctx
            \<and> ctx_token ctx = Some \<lparr>at_value = Some ''T'', expiry = ISOString (t0 + 3600 * 1000)\<rparr>
            \<and> ctx_scopes ctx = Some [''account:read'', ''workers:write'']
            \<and> ctx_refreshToken ctx =
                (if refresh_token json = Some ''R'' then Some \<lparr>rt_value = ''R''\<rparr>
                 else refreshToken s)"
    using assms(1,3,7) by (simp add: exchangeAuthCodeForAccessToken_def Let_def t sc rt)
  have b: "\<exists>ctx. result (exchangeRefreshTokenForAccessToken fetch t0 s) = Inr ctx
            \<and> ctx_token ctx = Some \<lparr>at_value = Some ''T'', expiry = ISOString (t0 + 3600 * 1000)\<rparr>
            \<and> ctx_scopes ctx = Some [''account:read'', ''workers:write'']
            \<and> ctx_refreshToken ctx =
                (if refresh_token json = Some ''R'' then Some \<lparr>rt_value = ''R''\<rparr>
                 else refreshToken s)"
    using assms(3,8) lt
    by (simp add: exchangeRefreshTokenForAccessToken_def refresh_try_def Let_def t sc rt)
  from a b show ?thesis by simp
qed


theorem exchange_success_context_witness:
  "response_ok 200 \<and> \<bar>1700000000000 + 3600 * 1000\<bar> \<le> (8640000000000000::int)
   \<and> result (exchangeAuthCodeForAccessToken
         (answering 200 (Some (granted_json (Some ''R'')))) 1700000000000 pending_state) =
       Inr \<lparr>ctx_token = Some \<lparr>at_value = Some ''T'', expiry = ISOString 1700003600000\<rparr>,
            ctx_scopes = Some [''account:read'', ''workers:write''],
            ctx_refreshToken = Some \<lparr>rt_value = ''R''\<rparr>\<rparr>
   \<and> result (exchangeRefreshTokenForAccessToken
         (answering 200 (Some (granted_json None))) 1700000000000 pending_state) =
       Inr \<lparr>ctx_token = Some \<lparr>at_value = Some ''T'', expiry = ISOString 1700003600000\<rparr>,
            ctx_scopes = Some [''account:read'', ''workers:write''],
            ctx_refreshToken = Some \<lparr>rt_value = ''old''\<rparr>\<rparr>"
proof -
  have old: "refreshToken pending_state = Some \<lparr>rt_value = ''old''\<rparr>"
    by (simp add: pending_state_def LocalState0_def)
  have ok: "response_ok 200" by (simp add: response_ok_def)
  show ?thesis
    using exchange_success_context [of 200 1700000000000 "granted_json (Some ''R'')"
        "answering 200 (Some (granted_json (Some ''R'')))" pending_state]
      exchange_success_context [of 200 1700000000000 "granted_json None"
        "answering 200 (Some (granted_json None))" pending_state]
    by (auto simp add: ok old granted_json_def answering_def)
qed

lemma pending_state_simps:
  "auth_code_body pending_state =
     ''grant_type=authorization_code&code=abc123&redirect_uri=http%3A%2F%2Flocalhost%3A8976%2Foauth%2Fcallback&client_id=54d11594-84e4-41aa-b438-e81b8fa78ee7&code_verifier=verifier''"
  "auth_code_warnings pending_state = []"
  by (simp_all add: auth_code_body_def auth_code_warnings_def pending_state_def LocalState0_def
      or_else_def truthy_def encodeURIComponent_def uri_unreserved_def hex_digit_def
      CALLBACK_URL_def CLIENT_ID_def)

text \<open>
  Claim C2. The claim is that a failing exchange leaves \<^verbatim>\<open>LocalState\<close> as it was. Here
  \<open>exchangeAuthCodeForAccessToken\<close> is evaluated on a success status whose body has no
  \<^verbatim>\<open>expires_in\<close>, and on a success status with the body \<^verbatim>\<open>{error:"invalid_grant"}\<close>: it
  throws a \<^verbatim>\<open>RangeError\<close> after it has set the exchanged flag, so the state differs from
  the one before the call although no access token was stored.
\<close>

theorem exchangeAuthCode_partial_write:
  "exchangeAuthCodeForAccessToken (answering 200 (Some no_expiry_json)) now pending_state =
     \<lparr>result = Inl RangeError,
      state = pending_state\<lparr>hasAuthCodeBeenExchangedForAccessToken := Some True\<rparr>,
      effects = [Fetch (token_request (auth_code_body pending_state))]\<rparr>
   \<and> pending_state\<lparr>hasAuthCodeBeenExchangedForAccessToken := Some True\<rparr> \<noteq> pending_state
   \<and> accessToken (pending_state\<lparr>hasAuthCodeBeenExchangedForAccessToken := Some True\<rparr>) = None
   \<and> exchangeAuthCodeForAccessToken (answering 200 (Some invalid_grant_json)) now pending_state =
     \<lparr>result = Inl RangeError,
      state = pending_state\<lparr>hasAuthCodeBeenExchangedForAccessToken := Some True\<rparr>,
      effects = [Fetch (token_request (auth_code_body pending_state))]\<rparr>"
proof -
  have flag: "hasAuthCodeBeenExchangedForAccessToken pending_state = Some False"
    by (simp add: pending_state_def LocalState0_def)
  have ne: "pending_state\<lparr>hasAuthCodeBeenExchangedForAccessToken := Some True\<rparr> \<noteq> pending_state"
  proof
    assume "pending_state\<lparr>hasAuthCodeBeenExchangedForAccessToken := Some True\<rparr> = pending_state"
    then have "hasAuthCodeBeenExchangedForAccessToken
        (pending_state\<lparr>hasAuthCodeBeenExchangedForAccessToken := Some True\<rparr>) = Some False"
      using flag by simp
    then show False by simp
  qed
  have tok: "accessToken (pending_state\<lparr>hasAuthCodeBeenExchangedForAccessToken := Some True\<rparr>) = None"
    by (simp add: pending_state_def LocalState0_def)
  have a: "exchangeAuthCodeForAccessToken (answering 200 (Some no_expiry_json)) now pending_state =
     \<lparr>result = Inl RangeError,
      state = pending_state\<lparr>hasAuthCodeBeenExchangedForAccessToken := Some True\<rparr>,
      effects = [Fetch (token_request (auth_code_body pending_state))]\<rparr>"
    by (simp add: exchangeAuthCodeForAccessToken_def Let_def answering_def response_ok_def
        no_expiry_json_def expiry_time_def TimeClip_def toISOString_def pending_state_simps(2))
  have b: "exchangeAuthCodeForAccessToken (answering 200 (Some invalid_grant_json)) now pending_state =
     \<lparr>result = Inl RangeError,
      state = pending_state\<lparr>hasAuthCodeBeenExchangedForAccessToken := Some True\<rparr>,
      effects = [Fetch (token_request (auth_code_body pending_state))]\<rparr>"
    by (simp add: exchangeAuthCodeForAccessToken_def Let_def answering_def response_ok_def
        invalid_grant_json_def expiry_time_def TimeClip_def toISOString_def pending_state_simps(2))
  from a b ne tok show ?thesis by simp
qed

lemma fetches_simps:
  "fetches [] = []"
  "fetches (Fetch r # es) = r # fetches es"
  "fetches (ConsoleWarn w # es) = fetches es"
  "fetches (ConsoleLog l # es) = fetches es"
  "fetches (ConsoleLogThrown e # es) = fetches es"
  "fetches (ConsoleLogContext c # es) = fetches es"
  "fetches (WriteConfigFile c # es) = fetches es"
  "fetches (xs @ ys) = fetches xs @ fetches ys"
  by (simp_all add: fetches_def)

lemma store_refresh_token_fields:
  "authorizationCode (store_refresh_token json st) = authorizationCode st"
  "hasAuthCodeBeenExchangedForAccessToken (store_refresh_token json st) =
     hasAuthCodeBeenExchangedForAccessToken st"
  by (simp_all add: store_refresh_token_def split: option.splits)

lemma store_scopes_fields:
  "authorizationCode (snd (store_scopes json st)) = authorizationCode st"
  "hasAuthCodeBeenExchangedForAccessToken (snd (store_scopes json st)) =
     hasAuthCodeBeenExchangedForAccessToken st"
  "refreshToken (snd (store_scopes json st)) = refreshToken st"
  by (simp_all add: store_scopes_def Let_def split: option.splits)

lemma fetches_auth_code_warnings: "fetches (auth_code_warnings st) = []"
  by (simp add: auth_code_warnings_def fetches_simps)

lemma exchangeAuthCode_authorizationCode:
  "authorizationCode (state (exchangeAuthCodeForAccessToken fetch now st)) = authorizationCode st"
  by (simp add: exchangeAuthCodeForAccessToken_def Let_def split_beta
      store_refresh_token_fields store_scopes_fields
      split: reply.splits option.splits sum.splits)

lemma exchangeAuthCode_fetches:
  "fetches (effects (exchangeAuthCodeForAccessToken fetch now st)) =
     [token_request (auth_code_body st)]"
  by (simp add: exchangeAuthCodeForAccessToken_def Let_def split_beta fetches_simps
      fetches_auth_code_warnings split: reply.splits option.splits sum.splits)

lemma exchangeRefreshToken_fetches:
  "fetches (effects (exchangeRefreshTokenForAccessToken fetch now st)) =
     [token_request (refresh_body st)]"
  by (simp add: exchangeRefreshTokenForAccessToken_def refresh_try_def refresh_catch_def
      Let_def split_beta fetches_simps split: reply.splits option.splits sum.splits)

lemma exchangeRefreshToken_failure_keeps_state:
  "result (exchangeRefreshTokenForAccessToken fetch now st) = Inl e \<Longrightarrow>
     state (exchangeRefreshTokenForAccessToken fetch now st) = st"
  by (simp add: exchangeRefreshTokenForAccessToken_def refresh_try_def refresh_catch_def
      Let_def split_beta split: reply.splits option.splits sum.splits if_splits)

lemma exchangeAuthCode_failure_state:
  "result (exchangeAuthCodeForAccessToken fetch now st) = Inl e \<Longrightarrow>
     state (exchangeAuthCodeForAccessToken fetch now st) = st
     \<or> (e = RangeError \<and> state (exchangeAuthCodeForAccessToken fetch now st) =
           st\<lparr>hasAuthCodeBeenExchangedForAccessToken := Some True\<rparr>)"
  by (auto simp add: exchangeAuthCodeForAccessToken_def Let_def split_beta toISOString_def
      split: reply.splits option.splits sum.splits if_splits)

lemma toErrorClass_samples:
  "toErrorClass (Some ''invalid_grant'') = OAuth ErrorInvalidGrant"
  "toErrorClass (Some ''There was a network error.'') = OAuth ErrorUnknown"
  by (simp_all add: toErrorClass_def RawErrorToErrorClassMap_def Object_prototype_keys_def)

text \<open>
  Claim C3. The claim is that both exchanges classify the \<^verbatim>\<open>error\<close> field of the body
  through the error table, whatever the status, and fail with \<open>ErrorInvalidJson\<close> on a
  body that is not JSON. Evaluated on the body \<^verbatim>\<open>{error:"invalid_grant"}\<close>: the refresh
  exchange throws the body itself on status 400 and \<open>ErrorUnknown\<close> on status 200, the
  code exchange throws \<open>ErrorInvalidGrant\<close> on status 400 and a \<^verbatim>\<open>RangeError\<close> on status
  200; on a body that is not JSON the rejection of \<^verbatim>\<open>response.json()\<close> is thrown as it
  is on status 400, and the refresh exchange throws \<open>ErrorUnknown\<close> on status 200.
\<close>

theorem exchange_error_classification:
  "result (exchangeRefreshTokenForAccessToken (answering 400 (Some invalid_grant_json)) now
      pending_state) = Inl (ThrownBody invalid_grant_json)
   \<and> toErrorClass (error_field invalid_grant_json) = OAuth ErrorInvalidGrant
   \<and> result (exchangeAuthCodeForAccessToken (answering 400 (Some invalid_grant_json)) now
      pending_state) = Inl (OAuth ErrorInvalidGrant)
   \<and> result (exchangeAuthCodeForAccessToken (answering 200 (Some invalid_grant_json)) now
      pending_state) = Inl RangeError
   \<and> result (exchangeRefreshTokenForAccessToken (answering 200 (Some invalid_grant_json)) now
      pending_state) = Inl (OAuth ErrorUnknown)
   \<and> result (exchangeAuthCodeForAccessToken (answering 400 None) now pending_state) =
      Inl JsonRejected
   \<and> result (exchangeRefreshTokenForAccessToken (answering 400 None) now pending_state) =
      Inl JsonRejected
   \<and> result (exchangeRefreshTokenForAccessToken (answering 200 None) now pending_state) =
      Inl (OAuth ErrorUnknown)"
  by (simp add: exchangeRefreshTokenForAccessToken_def exchangeAuthCodeForAccessToken_def
      refresh_try_def refresh_catch_def thrown_error_def or_else_def truthy_def Let_def
      answering_def response_ok_def invalid_grant_json_def expiry_time_def TimeClip_def
      toISOString_def toErrorClass_samples)

lemma refresh_body_undefined:
  "refreshToken s = None \<Longrightarrow>
     refresh_body s =
       ''grant_type=refresh_token&refresh_token=undefined&client_id=54d11594-84e4-41aa-b438-e81b8fa78ee7''"
  by (simp add: refresh_body_def CLIENT_ID_def)

text \<open>
  Claim C4, as stated, fails: without a stored refresh token the refresh exchange warns
  on the console, sends the request all the same and, on a success response, returns
  its context.
\<close>

theorem refresh_without_token_counterexample:
  "refreshToken LocalState0 = None
   \<and> effects (exchangeRefreshTokenForAccessToken
        (answering 200 (Some (granted_json (Some ''R'')))) 1700000000000 LocalState0) =
      [ConsoleWarn ''No refresh token is present.'',
       Fetch (token_request
         ''grant_type=refresh_token&refresh_token=undefined&client_id=54d11594-84e4-41aa-b438-e81b8fa78ee7'')]
   \<and> result (exchangeRefreshTokenForAccessToken
        (answering 200 (Some (granted_json (Some ''R'')))) 1700000000000 LocalState0) =
      Inr \<lparr>ctx_token = Some \<lparr>at_value = Some ''T'', expiry = ISOString 1700003600000\<rparr>,
           ctx_scopes = Some [''account:read'', ''workers:write''],
           ctx_refreshToken = Some \<lparr>rt_value = ''R''\<rparr>\<rparr>"
proof -
  have none: "refreshToken LocalState0 = None" by (simp add: LocalState0_def)
  show ?thesis
    by (simp add: none refresh_body_undefined exchangeRefreshTokenForAccessToken_def
        refresh_try_def Let_def answering_def granted_json_def expiry_time_def TimeClip_def
        toISOString_def store_refresh_token_def store_scopes_def)
qed

text \<open>
  Claim C4, amended. Without a stored refresh token, \<open>exchangeRefreshTokenForAccessToken\<close>
  first logs the warning \<^verbatim>\<open>No refresh token is present.\<close> and then sends one request to
  the token endpoint, whose body has \<^verbatim>\<open>refresh_token=undefined\<close>; it sends no other.
\<close>

theorem refresh_without_token_sends_request:
  assumes "refreshToken s = None"
  shows "take 2 (effects (exchangeRefreshTokenForAccessToken fetch now s)) =
      [ConsoleWarn ''No refresh token is present.'',
       Fetch (token_request
         ''grant_type=refresh_token&refresh_token=undefined&client_id=54d11594-84e4-41aa-b438-e81b8fa78ee7'')]
    \<and> fetches (effects (exchangeRefreshTokenForAccessToken fetch now s)) =
      [token_request
         ''grant_type=refresh_token&refresh_token=undefined&client_id=54d11594-84e4-41aa-b438-e81b8fa78ee7'']"
proof -
  have "take 2 (effects (exchangeRefreshTokenForAccessToken fetch now s)) =
      [ConsoleWarn ''No refresh token is present.'', Fetch (token_request (refresh_body s))]"
    using assms
    by (simp add: exchangeRefreshTokenForAccessToken_def Let_def
        split: reply.splits option.splits sum.splits)
  then show ?thesis
    using assms by (simp add: exchangeRefreshToken_fetches refresh_body_undefined)
qed

theorem refresh_without_token_sends_request_witness:
  "refreshToken LocalState0 = None
   \<and> take 2 (effects (exchangeRefreshTokenForAccessToken (answering 400 (Some invalid_grant_json))
        1700000000000 LocalState0)) =
      [ConsoleWarn ''No refresh token is present.'',
       Fetch (token_request
         ''grant_type=refresh_token&refresh_token=undefined&client_id=54d11594-84e4-41aa-b438-e81b8fa78ee7'')]
   \<and> fetches (effects (exchangeRefreshTokenForAccessToken (answering 400 (Some invalid_grant_json))
        1700000000000 LocalState0)) =
      [token_request
         ''grant_type=refresh_token&refresh_token=undefined&client_id=54d11594-84e4-41aa-b438-e81b8fa78ee7'']"
proof -
  have none: "refreshToken LocalState0 = None" by (simp add: LocalState0_def)
  show ?thesis
    using refresh_without_token_sends_request [OF none,
        of "answering 400 (Some invalid_grant_json)" 1700000000000]
    by (simp add: none)
qed

subsection \<open>The callback listener\<close>

lemma server_accepting:
  assumes "\<not> truthy (q_error q)" and "truthy (q_code q)" and "q_state q = stateQueryParam s"
  shows "state (server fetch now s ''/oauth/callback'' q) =
      state (exchangeAuthCodeForAccessToken fetch now
        (s\<lparr>authorizationCode := q_code q,
           hasAuthCodeBeenExchangedForAccessToken := Some False\<rparr>))"
    and "fetches (effects (server fetch now s ''/oauth/callback'' q)) =
      fetches (effects (exchangeAuthCodeForAccessToken fetch now
        (s\<lparr>authorizationCode := q_code q,
           hasAuthCodeBeenExchangedForAccessToken := Some False\<rparr>)))"
  using assms
  by (simp_all add: server_def isReturningFromAuthServer_def Let_def fetches_simps
      split: sum.splits)

lemma accepted_state_eq:
  "accepted_state =
    \<lparr>accessToken = Some \<lparr>at_value = Some ''T'', expiry = ISOString 1700003600000\<rparr>,
     authorizationCode = Some ''abc123'', codeChallenge = None,
     codeVerifier = Some ''verifier'', hasAuthCodeBeenExchangedForAccessToken = Some True,
     refreshToken = Some \<lparr>rt_value = ''R''\<rparr>, stateQueryParam = Some ''s3cr3t'',
     scopes = Some [''account:read'', ''workers:write'']\<rparr>"
  by (simp add: accepted_state_def server_def isReturningFromAuthServer_def
      exchangeAuthCodeForAccessToken_def awaiting_state_def first_callback_def LocalState0_def
      truthy_def Let_def answering_def granted_json_def response_ok_def expiry_time_def
      TimeClip_def toISOString_def store_refresh_token_def store_scopes_def)

lemma evil_body:
  "auth_code_body (accepted_state\<lparr>authorizationCode := Some ''evil456'',
      hasAuthCodeBeenExchangedForAccessToken := Some False\<rparr>) =
   ''grant_type=authorization_code&code=evil456&redirect_uri=http%3A%2F%2Flocalhost%3A8976%2Foauth%2Fcallback&client_id=54d11594-84e4-41aa-b438-e81b8fa78ee7&code_verifier=verifier''"
  by (simp add: accepted_state_eq auth_code_body_def or_else_def encodeURIComponent_def
      uri_unreserved_def hex_digit_def CALLBACK_URL_def CLIENT_ID_def)

text \<open>
  Claim C1, as stated, fails: after a first callback has been accepted and its code
  exchanged, a second callback with another code and the same state value replaces
  the stored code, resets the exchanged flag and sends a token request for the new
  code.
\<close>

theorem second_callback_counterexample:
  "authorizationCode accepted_state = Some ''abc123''
   \<and> hasAuthCodeBeenExchangedForAccessToken accepted_state = Some True
   \<and> q_state second_callback = stateQueryParam accepted_state
   \<and> q_code second_callback = Some ''evil456''
   \<and> authorizationCode (state (server (answering 400 (Some invalid_grant_json)) 1700000001000
        accepted_state ''/oauth/callback'' second_callback)) = Some ''evil456''
   \<and> hasAuthCodeBeenExchangedForAccessToken
        (state (server (answering 400 (Some invalid_grant_json)) 1700000001000
          accepted_state ''/oauth/callback'' second_callback)) = Some False
   \<and> fetches (effects (server (answering 400 (Some invalid_grant_json)) 1700000001000
        accepted_state ''/oauth/callback'' second_callback)) =
      [token_request
        ''grant_type=authorization_code&code=evil456&redirect_uri=http%3A%2F%2Flocalhost%3A8976%2Foauth%2Fcallback&client_id=54d11594-84e4-41aa-b438-e81b8fa78ee7&code_verifier=verifier'']"
proof -
  have q: "\<not> truthy (q_error second_callback)" "truthy (q_code second_callback)"
      "q_state second_callback = stateQueryParam accepted_state"
      "q_code second_callback = Some ''evil456''"
    by (simp_all add: second_callback_def truthy_def accepted_state_eq)
  have st: "state (server (answering 400 (Some invalid_grant_json)) 1700000001000
        accepted_state ''/oauth/callback'' second_callback) =
      accepted_state\<lparr>authorizationCode := Some ''evil456'',
        hasAuthCodeBeenExchangedForAccessToken := Some False\<rparr>"
    by (simp add: server_accepting(1) [OF q(1,2,3)] q(4) exchangeAuthCodeForAccessToken_def
        Let_def answering_def response_ok_def)
  have f: "fetches (effects (server (answering 400 (Some invalid_grant_json)) 1700000001000
        accepted_state ''/oauth/callback'' second_callback)) =
      [token_request (auth_code_body (accepted_state\<lparr>authorizationCode := Some ''evil456'',
        hasAuthCodeBeenExchangedForAccessToken := Some False\<rparr>))]"
    by (simp add: server_accepting(2) [OF q(1,2,3)] q(4) exchangeAuthCode_fetches)
  have a: "authorizationCode accepted_state = Some ''abc123''"
      "hasAuthCodeBeenExchangedForAccessToken accepted_state = Some True"
    by (simp_all add: accepted_state_eq)
  show ?thesis
    unfolding st f evil_body using a q(3,4) by simp
qed

text \<open>
  Claim C1, amended. In every \<^verbatim>\<open>LocalState\<close>, also one that holds an accepted code, a
  callback with a code and the stored state value is accepted like a first one: the
  check returns true and throws nothing, the stored code becomes the new code, the
  exchanged flag is reset to false, and the listener sends one token request, for the
  new code.
\<close>

theorem second_callback_replaces_code:
  assumes "\<not> truthy (q_error q)" and "truthy (q_code q)" and "q_state q = stateQueryParam s"
  shows "result (isReturningFromAuthServer s q) = Inr True
    \<and> state (isReturningFromAuthServer s q) =
        s\<lparr>authorizationCode := q_code q,
          hasAuthCodeBeenExchangedForAccessToken := Some False\<rparr>
    \<and> authorizationCode (state (server fetch now s ''/oauth/callback'' q)) = q_code q
    \<and> fetches (effects (server fetch now s ''/oauth/callback'' q)) =
        [token_request (auth_code_body
          (s\<lparr>authorizationCode := q_code q,
             hasAuthCodeBeenExchangedForAccessToken := Some False\<rparr>))]"
proof -
  have "result (isReturningFromAuthServer s q) = Inr True
    \<and> state (isReturningFromAuthServer s q) =
        s\<lparr>authorizationCode := q_code q,
          hasAuthCodeBeenExchangedForAccessToken := Some False\<rparr>"
    using assms by (simp add: isReturningFromAuthServer_def)
  moreover have "authorizationCode (state (server fetch now s ''/oauth/callback'' q)) = q_code q"
    by (simp add: server_accepting(1) [OF assms] exchangeAuthCode_authorizationCode)
  moreover have "fetches (effects (server fetch now s ''/oauth/callback'' q)) =
        [token_request (auth_code_body
          (s\<lparr>authorizationCode := q_code q,
             hasAuthCodeBeenExchangedForAccessToken := Some False\<rparr>))]"
    by (simp add: server_accepting(2) [OF assms] exchangeAuthCode_fetches)
  ultimately show ?thesis by simp
qed

theorem second_callback_replaces_code_witness:
  "\<not> truthy (q_error second_callback) \<and> truthy (q_code second_callback)
   \<and> q_state second_callback = stateQueryParam accepted_state
   \<and> authorizationCode accepted_state = Some ''abc123''
   \<and> result (isReturningFromAuthServer accepted_state second_callback) = Inr True
   \<and> authorizationCode (state (server (answering 200 (Some (granted_json None))) 1700000001000
        accepted_state ''/oauth/callback'' second_callback)) = Some ''evil456''
   \<and> fetches (effects (server (answering 200 (Some (granted_json None))) 1700000001000
        accepted_state ''/oauth/callback'' second_callback)) =
      [token_request
        ''grant_type=authorization_code&code=evil456&redirect_uri=http%3A%2F%2Flocalhost%3A8976%2Foauth%2Fcallback&client_id=54d11594-84e4-41aa-b438-e81b8fa78ee7&code_verifier=verifier'']"
proof -
  have q: "\<not> truthy (q_error second_callback)" "truthy (q_code second_callback)"
      "q_state second_callback = stateQueryParam accepted_state"
      "q_code second_callback = Some ''evil456''"
    by (simp_all add: second_callback_def truthy_def accepted_state_eq)
  have a: "authorizationCode accepted_state = Some ''abc123''"
    by (simp add: accepted_state_eq)
  show ?thesis
    using second_callback_replaces_code [OF q(1,2,3),
        of "answering 200 (Some (granted_json None))" 1700000001000]
    by (simp add: q a evil_body truthy_simps)
qed

subsection \<open>The expiry check\<close>

text \<open>
  Claim C10. \<open>isAccessTokenExpired\<close> is true if and only if an access token is stored
  and the current time is at or past its expiry: false without a token, true with an
  expiry in the past, false with an expiry in the future.
\<close>

theorem isAccessTokenExpired_iff:
  "isAccessTokenExpired now s =
     (\<exists>tok t. accessToken s = Some tok \<and> Date_of_string (expiry tok) = Some t \<and> t \<le> now)
   \<and> isAccessTokenExpired now (s\<lparr>accessToken := None\<rparr>) = False
   \<and> isAccessTokenExpired now
        (s\<lparr>accessToken := Some \<lparr>at_value = v, expiry = ISOString t\<rparr>\<rparr>)
       = (\<bar>t\<bar> \<le> 8640000000000000 \<and> t \<le> now)"
  by (auto simp add: isAccessTokenExpired_def Date_of_string_def TimeClip_def
      split: option.splits)

end
